theory Spec2Isabelle
  imports Complex_Main
begin

section \<open>Numeric conventions\<close>

text \<open>
  The C++ source computes with \<^verbatim>\<open>int\<close> and \<^verbatim>\<open>float\<close>. Here \<^verbatim>\<open>float\<close> is \<^typ>\<open>real\<close>
  (rounding is left out) and \<^verbatim>\<open>int\<close> is \<^typ>\<open>int\<close>. The size of the new bounds is the one
  \<^verbatim>\<open>int\<close> sum taken of an unbounded input, the size of the content; it is written with the
  wrap-around of 32-bit two's complement, \<^term>\<open>int32\<close>, which is what the compiled sum gives
  where C++ leaves the overflow undefined. The other \<^verbatim>\<open>int\<close> values are taken in range. The
  C++ conversions are written out: \<^verbatim>\<open>(float) n\<close> is \<^const>\<open>real_of_int\<close>, \<^verbatim>\<open>(int) f\<close> cuts
  the fraction off towards zero, and \<^verbatim>\<open>n / 2\<close> on \<^verbatim>\<open>int\<close> rounds towards zero as well.
\<close>

definition float_to_int :: "real \<Rightarrow> int" where
  "float_to_int f = (if 0 \<le> f then \<lfloor>f\<rfloor> else \<lceil>f\<rceil>)"

definition int32 :: "int \<Rightarrow> int" where
  "int32 n = (n + 2147483648) mod 4294967296 - 2147483648"

definition int_div :: "int \<Rightarrow> int \<Rightarrow> int" where
  "int_div a b = sgn a * sgn b * (\<bar>a\<bar> div \<bar>b\<bar>)"

definition jmax :: "'a::linorder \<Rightarrow> 'a \<Rightarrow> 'a" where
  "jmax a b = (if a < b then b else a)"

definition jlimit :: "'a::linorder \<Rightarrow> 'a \<Rightarrow> 'a \<Rightarrow> 'a" where
  "jlimit lowerLimit upperLimit valueToConstrain =
     (if valueToConstrain < lowerLimit then lowerLimit
      else if upperLimit < valueToConstrain then upperLimit
      else valueToConstrain)"

section \<open>Geometry primitives\<close>

text \<open>
  Modelled from the spec: the classes \<^verbatim>\<open>Point\<close>, \<^verbatim>\<open>Line\<close> and \<^verbatim>\<open>Rectangle\<close> of the
  library (their headers are not among the sources). The spec names them as the supporting
  primitives of the solver: points, segments and axis-aligned rectangles given by top-left
  corner and size, the coordinate-wise clamp of a point into a rectangle, the nearest point
  on a segment, and the Euclidean distance. Where the spec leaves a detail open, a choice
  is made that no claim below rests on: a rectangle contains the points from its left and
  top sides up to, and without, its right and bottom sides; a rectangle reduced by more than
  its size keeps the size zero; the nearest point on a segment of length zero is its start.
\<close>

datatype 'a Point = Point (point_x: 'a) (point_y: 'a)

datatype 'a Line = Line (getStart: "'a Point") (getEnd: "'a Point")

datatype 'a Rectangle = Rectangle (getX: 'a) (getY: 'a) (getWidth: 'a) (getHeight: 'a)

definition translated :: "real Point \<Rightarrow> real \<Rightarrow> real \<Rightarrow> real Point" where
  "translated p dx dy = Point (point_x p + dx) (point_y p + dy)"

definition point_add :: "'a::plus Point \<Rightarrow> 'a Point \<Rightarrow> 'a Point" where
  "point_add p q = Point (point_x p + point_x q) (point_y p + point_y q)"

definition point_sub :: "'a::minus Point \<Rightarrow> 'a Point \<Rightarrow> 'a Point" where
  "point_sub p q = Point (point_x p - point_x q) (point_y p - point_y q)"

definition point_toFloat :: "int Point \<Rightarrow> real Point" where
  "point_toFloat p = Point (real_of_int (point_x p)) (real_of_int (point_y p))"

definition getDistanceFrom :: "real Point \<Rightarrow> real Point \<Rightarrow> real" where
  "getDistanceFrom p other =
     sqrt ((point_x p - point_x other)\<^sup>2 + (point_y p - point_y other)\<^sup>2)"

definition findNearestPointTo :: "real Line \<Rightarrow> real Point \<Rightarrow> real Point" where
  "findNearestPointTo l p =
     (let dx = point_x (getEnd l) - point_x (getStart l);
          dy = point_y (getEnd l) - point_y (getStart l);
          len = dx * dx + dy * dy;
          prop = (if len \<le> 0 then 0
                  else jlimit 0 1 (((point_x p - point_x (getStart l)) * dx
                                    + (point_y p - point_y (getStart l)) * dy) / len))
      in Point (point_x (getStart l) + dx * prop) (point_y (getStart l) + dy * prop))"

definition getRight :: "'a::plus Rectangle \<Rightarrow> 'a" where
  "getRight r = getX r + getWidth r"

definition getBottom :: "'a::plus Rectangle \<Rightarrow> 'a" where
  "getBottom r = getY r + getHeight r"

definition getCentreX :: "int Rectangle \<Rightarrow> int" where
  "getCentreX r = getX r + int_div (getWidth r) 2"

definition getCentreY :: "int Rectangle \<Rightarrow> int" where
  "getCentreY r = getY r + int_div (getHeight r) 2"

definition getCentre :: "int Rectangle \<Rightarrow> int Point" where
  "getCentre r = Point (getCentreX r) (getCentreY r)"

definition getPosition :: "'a Rectangle \<Rightarrow> 'a Point" where
  "getPosition r = Point (getX r) (getY r)"

definition setPosition :: "'a Rectangle \<Rightarrow> 'a \<Rightarrow> 'a \<Rightarrow> 'a Rectangle" where
  "setPosition r newX newY = Rectangle newX newY (getWidth r) (getHeight r)"

definition toFloat :: "int Rectangle \<Rightarrow> real Rectangle" where
  "toFloat r = Rectangle (real_of_int (getX r)) (real_of_int (getY r))
                         (real_of_int (getWidth r)) (real_of_int (getHeight r))"

definition expanded :: "'a::linordered_idom Rectangle \<Rightarrow> 'a \<Rightarrow> 'a \<Rightarrow> 'a Rectangle" where
  "expanded r deltaX deltaY =
     Rectangle (getX r - deltaX) (getY r - deltaY)
               (jmax 0 (getWidth r + deltaX * 2)) (jmax 0 (getHeight r + deltaY * 2))"

definition reduced :: "'a::linordered_idom Rectangle \<Rightarrow> 'a \<Rightarrow> 'a \<Rightarrow> 'a Rectangle" where
  "reduced r deltaX deltaY = expanded r (- deltaX) (- deltaY)"

definition contains :: "'a::linordered_idom Rectangle \<Rightarrow> 'a Point \<Rightarrow> bool" where
  "contains r p \<longleftrightarrow>
     getX r \<le> point_x p \<and> getY r \<le> point_y p
     \<and> point_x p < getX r + getWidth r \<and> point_y p < getY r + getHeight r"

definition getConstrainedPoint :: "'a::linordered_idom Rectangle \<Rightarrow> 'a Point \<Rightarrow> 'a Point" where
  "getConstrainedPoint r p =
     Point (jlimit (getX r) (getX r + getWidth r) (point_x p))
           (jlimit (getY r) (getY r + getHeight r) (point_y p))"

section \<open>The placement solver: \<^verbatim>\<open>CallOutBox::updatePosition\<close>\<close>

text \<open>
  The four anchor points \<^verbatim>\<open>targets[0..3]\<close>: the midpoints of the bottom, right, left and
  top sides of the target area, in that order.
\<close>

definition targets :: "int Rectangle \<Rightarrow> real Point list" where
  "targets targetArea =
     [Point (real_of_int (getCentreX targetArea)) (real_of_int (getBottom targetArea)),
      Point (real_of_int (getRight targetArea)) (real_of_int (getCentreY targetArea)),
      Point (real_of_int (getX targetArea)) (real_of_int (getCentreY targetArea)),
      Point (real_of_int (getCentreX targetArea)) (real_of_int (getY targetArea))]"

text \<open>The four probe segments \<^verbatim>\<open>lines[0..3]\<close>, from the locals of the function.\<close>

definition lines :: "int Rectangle \<Rightarrow> int \<Rightarrow> int \<Rightarrow> int \<Rightarrow> real \<Rightarrow> real Line list" where
  "lines targetArea hw hh borderSpace arrowSize =
     (let hwReduced = real_of_int (hw - borderSpace * 3);
          hhReduced = real_of_int (hh - borderSpace * 3);
          arrowIndent = real_of_int borderSpace - arrowSize;
          t = targets targetArea
      in [Line (translated (t ! 0) (- hwReduced) (real_of_int hh - arrowIndent))
               (translated (t ! 0) hwReduced (real_of_int hh - arrowIndent)),
          Line (translated (t ! 1) (real_of_int hw - arrowIndent) (- hhReduced))
               (translated (t ! 1) (real_of_int hw - arrowIndent) hhReduced),
          Line (translated (t ! 2) (- (real_of_int hw - arrowIndent)) (- hhReduced))
               (translated (t ! 2) (- (real_of_int hw - arrowIndent)) hhReduced),
          Line (translated (t ! 3) (- hwReduced) (- (real_of_int hh - arrowIndent)))
               (translated (t ! 3) hwReduced (- (real_of_int hh - arrowIndent)))])"

text \<open>
  The cached background is an image or the null image \<^verbatim>\<open>Image::null\<close>.
\<close>

datatype Image = Image_null | Image_data nat

text \<open>
  Modelled from the spec: \<^verbatim>\<open>Path\<close>, with \<^verbatim>\<open>Path::clear\<close> and \<^verbatim>\<open>Path::addBubble\<close> (not among
  the sources). A path is the list of the bubbles added to it since it was cleared; a bubble
  keeps the five arguments it was built from.
\<close>

datatype Bubble = Bubble (bodyArea: "real Rectangle") (maximumArea: "real Rectangle")
                         (arrowTip: "real Point") (cornerSize: real) (arrowBaseWidth: real)

type_synonym Path = "Bubble list"

definition addBubble ::
  "Path \<Rightarrow> real Rectangle \<Rightarrow> real Rectangle \<Rightarrow> real Point \<Rightarrow> real \<Rightarrow> real \<Rightarrow> Path" where
  "addBubble p body maxArea tip corner arrowBase = p @ [Bubble body maxArea tip corner arrowBase]"

text \<open>
  The state of a box: the members of the class, then what the host component keeps for it
  (bounds in the parent, visibility, the modal session, posted command messages, the
  repaint request). \<^verbatim>\<open>content\<close> is a reference to the hosted component; what the box
  reads and writes of it is its bounds, kept here.
\<close>

record CallOutBox =
  borderSpace :: int
  arrowSize :: real
  content :: "int Rectangle"
  outline :: Path
  targetPoint :: "real Point"
  availableArea :: "int Rectangle"
  targetArea :: "int Rectangle"
  background :: Image
  bounds :: "int Rectangle"
  visible :: bool
  currentlyModal :: bool
  modalReturnValue :: "int option"
  postedCommands :: "int list"
  repaintPending :: bool

text \<open>
  Modelled from the spec: the services of the host framework that the box calls (section 6
  of the spec; \<^verbatim>\<open>Component\<close> is not among the sources). \<^verbatim>\<open>setBounds\<close> stores the rectangle,
  with a negative width or height stored as zero (a component has no negative size),
  \<^verbatim>\<open>getLocalBounds\<close> is the bounds moved to the origin, \<^verbatim>\<open>repaint\<close> records a repaint
  request, \<^verbatim>\<open>setVisible\<close> sets the visibility, \<^verbatim>\<open>enterModalState\<close> and \<^verbatim>\<open>exitModalState\<close>
  open and close the exclusive session (the latter keeping the return code), and
  \<^verbatim>\<open>postCommandMessage\<close> queues a command for a later turn of the event loop. The
  callbacks \<^verbatim>\<open>resized\<close>, \<^verbatim>\<open>moved\<close> and \<^verbatim>\<open>childBoundsChanged\<close> are calls of the host on the
  box; they are members of their own below, and \<^verbatim>\<open>setBounds\<close> does not make them.
\<close>

definition setBounds :: "CallOutBox \<Rightarrow> int Rectangle \<Rightarrow> CallOutBox" where
  "setBounds s r =
     s\<lparr>bounds := Rectangle (getX r) (getY r) (jmax 0 (getWidth r)) (jmax 0 (getHeight r))\<rparr>"

definition getLocalBounds :: "CallOutBox \<Rightarrow> int Rectangle" where
  "getLocalBounds s = Rectangle 0 0 (getWidth (bounds s)) (getHeight (bounds s))"

definition repaint :: "CallOutBox \<Rightarrow> CallOutBox" where
  "repaint s = s\<lparr>repaintPending := True\<rparr>"

definition setVisible :: "CallOutBox \<Rightarrow> bool \<Rightarrow> CallOutBox" where
  "setVisible s shouldBeVisible = s\<lparr>visible := shouldBeVisible\<rparr>"

definition enterModalState :: "CallOutBox \<Rightarrow> CallOutBox" where
  "enterModalState s = s\<lparr>currentlyModal := True\<rparr>"

definition exitModalState :: "CallOutBox \<Rightarrow> int \<Rightarrow> CallOutBox" where
  "exitModalState s returnValue = s\<lparr>currentlyModal := False, modalReturnValue := Some returnValue\<rparr>"

definition postCommandMessage :: "CallOutBox \<Rightarrow> int \<Rightarrow> CallOutBox" where
  "postCommandMessage s commandId = s\<lparr>postedCommands := postedCommands s @ [commandId]\<rparr>"

text \<open>
  The locals of \<^verbatim>\<open>updatePosition\<close> that do not change in the loop, as functions of the state
  and the two arguments: \<^verbatim>\<open>newBounds\<close> as first built (at the origin), \<^verbatim>\<open>hw\<close>, \<^verbatim>\<open>hh\<close>,
  \<^verbatim>\<open>lines\<close>, \<^verbatim>\<open>centrePointArea\<close> and \<^verbatim>\<open>targetCentre\<close>.
\<close>

definition newBoundsInit :: "CallOutBox \<Rightarrow> int Rectangle" where
  "newBoundsInit s = Rectangle 0 0 (int32 (getWidth (content s) + int32 (borderSpace s * 2)))
                                   (int32 (getHeight (content s) + int32 (borderSpace s * 2)))"

definition hw :: "CallOutBox \<Rightarrow> int" where
  "hw s = int_div (getWidth (newBoundsInit s)) 2"

definition hh :: "CallOutBox \<Rightarrow> int" where
  "hh s = int_div (getHeight (newBoundsInit s)) 2"

definition probeLines :: "CallOutBox \<Rightarrow> int Rectangle \<Rightarrow> real Line list" where
  "probeLines s newAreaToPointTo = lines newAreaToPointTo (hw s) (hh s) (borderSpace s) (arrowSize s)"

definition centrePointArea :: "CallOutBox \<Rightarrow> int Rectangle \<Rightarrow> real Rectangle" where
  "centrePointArea s newAreaToFitIn = toFloat (reduced newAreaToFitIn (hw s) (hh s))"

definition targetCentre :: "int Rectangle \<Rightarrow> real Point" where
  "targetCentre newAreaToPointTo = point_toFloat (getCentre newAreaToPointTo)"

text \<open>
  One turn of the loop for edge \<open>i\<close>: the tentative centre (\<^verbatim>\<open>centre\<close>), the score
  (\<^verbatim>\<open>distanceFromCentre\<close>, with the penalty), and the update of the running minimum
  \<^verbatim>\<open>nearest\<close>, of \<^verbatim>\<open>targetPoint\<close> and of the position of \<^verbatim>\<open>newBounds\<close>.
\<close>

definition edgeCentre :: "CallOutBox \<Rightarrow> int Rectangle \<Rightarrow> int Rectangle \<Rightarrow> nat \<Rightarrow> real Point" where
  "edgeCentre s newAreaToPointTo newAreaToFitIn i =
     (let l = probeLines s newAreaToPointTo ! i;
          constrainedLine = Line (getConstrainedPoint (centrePointArea s newAreaToFitIn) (getStart l))
                                 (getConstrainedPoint (centrePointArea s newAreaToFitIn) (getEnd l))
      in findNearestPointTo constrainedLine (targetCentre newAreaToPointTo))"

definition edgeScore :: "CallOutBox \<Rightarrow> int Rectangle \<Rightarrow> int Rectangle \<Rightarrow> nat \<Rightarrow> real" where
  "edgeScore s newAreaToPointTo newAreaToFitIn i =
     (let l = probeLines s newAreaToPointTo ! i;
          centre = edgeCentre s newAreaToPointTo newAreaToFitIn i;
          distanceFromCentre = getDistanceFrom centre (targets newAreaToPointTo ! i)
      in if \<not> (contains (centrePointArea s newAreaToFitIn) (getStart l)
                \<or> contains (centrePointArea s newAreaToFitIn) (getEnd l))
         then distanceFromCentre + 1000 else distanceFromCentre)"

definition edgePosition :: "CallOutBox \<Rightarrow> int Rectangle \<Rightarrow> int Rectangle \<Rightarrow> nat \<Rightarrow> int Point" where
  "edgePosition s newAreaToPointTo newAreaToFitIn i =
     (let centre = edgeCentre s newAreaToPointTo newAreaToFitIn i
      in Point (float_to_int (point_x centre - real_of_int (hw s)))
               (float_to_int (point_y centre - real_of_int (hh s))))"

type_synonym selection = "real \<times> real Point \<times> int Rectangle"

definition edgeStep ::
  "CallOutBox \<Rightarrow> int Rectangle \<Rightarrow> int Rectangle \<Rightarrow> selection \<Rightarrow> nat \<Rightarrow> selection" where
  "edgeStep s newAreaToPointTo newAreaToFitIn st i =
     (case st of (nearest, tp, newBounds) \<Rightarrow>
        if edgeScore s newAreaToPointTo newAreaToFitIn i < nearest
        then (edgeScore s newAreaToPointTo newAreaToFitIn i,
              targets newAreaToPointTo ! i,
              setPosition newBounds (point_x (edgePosition s newAreaToPointTo newAreaToFitIn i))
                                    (point_y (edgePosition s newAreaToPointTo newAreaToFitIn i)))
        else st)"

text \<open>
  The loop \<^verbatim>\<open>for (int i = 0; i < 4; ++i)\<close>, started with \<^verbatim>\<open>nearest = 1.0e9f\<close>, the
  \<^verbatim>\<open>targetPoint\<close> of the state and \<^verbatim>\<open>newBounds\<close> at the origin.
\<close>

definition placement :: "CallOutBox \<Rightarrow> int Rectangle \<Rightarrow> int Rectangle \<Rightarrow> selection" where
  "placement s newAreaToPointTo newAreaToFitIn =
     foldl (edgeStep s newAreaToPointTo newAreaToFitIn)
           (1000000000, targetPoint s, newBoundsInit s) [0, 1, 2, 3]"

definition updatePosition :: "CallOutBox \<Rightarrow> int Rectangle \<Rightarrow> int Rectangle \<Rightarrow> CallOutBox" where
  "updatePosition s newAreaToPointTo newAreaToFitIn =
     (case placement s newAreaToPointTo newAreaToFitIn of
        (nearest, newTargetPoint, newBounds) \<Rightarrow>
          setBounds (s\<lparr>targetArea := newAreaToPointTo, availableArea := newAreaToFitIn,
                       targetPoint := newTargetPoint\<rparr>) newBounds)"

section \<open>The outline and the hit test\<close>

text \<open>
  Modelled from the spec: \<^verbatim>\<open>Path::contains\<close> (not among the sources), for the bubbles of
  section 4.2 of the spec: a rounded rectangle following the body area, with a triangular
  notch whose apex is the arrow tip and whose base, of the given half-width, lies on the side
  of the body nearest to the apex. A point is in the rounded rectangle when its distance to
  the body shrunk by the corner radius is at most that radius; it is in the notch when it
  lies between the apex and the base, no further from the axis of the notch than the
  triangle is wide there. A path contains the points of its bubbles.
\<close>

datatype Side = TopSide | BottomSide | LeftSide | RightSide

definition nearestSide :: "real Rectangle \<Rightarrow> real Point \<Rightarrow> Side" where
  "nearestSide body tip =
     (let dTop = \<bar>point_y tip - getY body\<bar>;
          dBottom = \<bar>point_y tip - getBottom body\<bar>;
          dLeft = \<bar>point_x tip - getX body\<bar>;
          dRight = \<bar>point_x tip - getRight body\<bar>
      in if dTop \<le> dBottom \<and> dTop \<le> dLeft \<and> dTop \<le> dRight then TopSide
         else if dBottom \<le> dLeft \<and> dBottom \<le> dRight then BottomSide
         else if dLeft \<le> dRight then LeftSide
         else RightSide)"

definition roundedRectangle_contains :: "real Rectangle \<Rightarrow> real \<Rightarrow> real Point \<Rightarrow> bool" where
  "roundedRectangle_contains body radius p =
     (let nx = jlimit (getX body + radius) (getRight body - radius) (point_x p);
          ny = jlimit (getY body + radius) (getBottom body - radius) (point_y p)
      in (point_x p - nx)\<^sup>2 + (point_y p - ny)\<^sup>2 \<le> radius\<^sup>2)"

definition triangle_contains :: "real \<Rightarrow> real \<Rightarrow> real \<Rightarrow> real \<Rightarrow> real \<Rightarrow> real \<Rightarrow> bool" where
  "triangle_contains apexAlong apexAcross baseAcross halfWidth along across =
     (min apexAcross baseAcross \<le> across \<and> across \<le> max apexAcross baseAcross
      \<and> \<bar>along - apexAlong\<bar> * \<bar>baseAcross - apexAcross\<bar> \<le> halfWidth * \<bar>across - apexAcross\<bar>)"

definition notch_contains :: "real Rectangle \<Rightarrow> real Point \<Rightarrow> real \<Rightarrow> real Point \<Rightarrow> bool" where
  "notch_contains body tip halfWidth p =
     (case nearestSide body tip of
        TopSide \<Rightarrow> triangle_contains (point_x tip) (point_y tip) (getY body) halfWidth
                                       (point_x p) (point_y p)
      | BottomSide \<Rightarrow> triangle_contains (point_x tip) (point_y tip) (getBottom body) halfWidth
                                          (point_x p) (point_y p)
      | LeftSide \<Rightarrow> triangle_contains (point_y tip) (point_x tip) (getX body) halfWidth
                                        (point_y p) (point_x p)
      | RightSide \<Rightarrow> triangle_contains (point_y tip) (point_x tip) (getRight body) halfWidth
                                         (point_y p) (point_x p))"

definition bubble_contains :: "Bubble \<Rightarrow> real Point \<Rightarrow> bool" where
  "bubble_contains b p \<longleftrightarrow>
     roundedRectangle_contains (bodyArea b) (cornerSize b) p
     \<or> notch_contains (bodyArea b) (arrowTip b) (arrowBaseWidth b) p"

definition path_contains :: "Path \<Rightarrow> real \<Rightarrow> real \<Rightarrow> bool" where
  "path_contains p x y = list_ex (\<lambda>b. bubble_contains b (Point x y)) p"

text \<open>
  \<^verbatim>\<open>refreshPath\<close> and \<^verbatim>\<open>hitTest\<close>, from the source. The content is a child of the box, so
  \<^verbatim>\<open>content.getBounds()\<close> is in the coordinates of the box.
\<close>

definition refreshPath :: "CallOutBox \<Rightarrow> CallOutBox" where
  "refreshPath s =
     (let s1 = repaint s;
          s2 = s1\<lparr>background := Image_null\<rparr>;
          s3 = s2\<lparr>outline := []\<rparr>;
          gap = 9 / 2
      in s3\<lparr>outline := addBubble (outline s3)
                                  (expanded (toFloat (content s3)) gap gap)
                                  (toFloat (getLocalBounds s3))
                                  (point_sub (targetPoint s3) (point_toFloat (getPosition (bounds s3))))
                                  9 (arrowSize s3 * (7 / 10))\<rparr>)"

definition hitTest :: "CallOutBox \<Rightarrow> int \<Rightarrow> int \<Rightarrow> bool" where
  "hitTest s x y = path_contains (outline s) (real_of_int x) (real_of_int y)"

section \<open>The other members of \<^verbatim>\<open>CallOutBox\<close>\<close>

definition setArrowSize :: "CallOutBox \<Rightarrow> real \<Rightarrow> CallOutBox" where
  "setArrowSize s newSize =
     (let s1 = s\<lparr>arrowSize := newSize\<rparr>;
          s2 = s1\<lparr>borderSpace := jmax 20 (float_to_int (arrowSize s1))\<rparr>
      in refreshPath s2)"

text \<open>
  \<^verbatim>\<open>paint\<close> hands the outline and the cached background to the look-and-feel, which draws
  and may fill the cache; the look-and-feel is the parameter \<open>draw\<close>.
\<close>

definition paint :: "(Path \<Rightarrow> Image \<Rightarrow> Image) \<Rightarrow> CallOutBox \<Rightarrow> CallOutBox" where
  "paint draw s = s\<lparr>background := draw (outline s) (background s)\<rparr>"

definition resized :: "CallOutBox \<Rightarrow> CallOutBox" where
  "resized s =
     refreshPath (s\<lparr>content := setPosition (content s) (borderSpace s) (borderSpace s)\<rparr>)"

definition moved :: "CallOutBox \<Rightarrow> CallOutBox" where
  "moved s = refreshPath s"

definition childBoundsChanged :: "CallOutBox \<Rightarrow> CallOutBox" where
  "childBoundsChanged s = updatePosition s (targetArea s) (availableArea s)"

definition callOutBoxDismissCommandId :: int where
  "callOutBoxDismissCommandId = 1334026315"

text \<open>
  \<^verbatim>\<open>getMouseXYRelative()\<close> is an input of the host: the pointer position relative to the box,
  here the argument \<open>mouseXYRelative\<close>.
\<close>

definition inputAttemptWhenModal :: "CallOutBox \<Rightarrow> int Point \<Rightarrow> CallOutBox" where
  "inputAttemptWhenModal s mouseXYRelative =
     (let mousePos = point_add mouseXYRelative (getPosition (bounds s))
      in if contains (targetArea s) mousePos
         then postCommandMessage s callOutBoxDismissCommandId
         else setVisible (exitModalState s 0) False)"

definition handleCommandMessage :: "CallOutBox \<Rightarrow> int \<Rightarrow> CallOutBox" where
  "handleCommandMessage s commandId =
     (if commandId = callOutBoxDismissCommandId
      then setVisible (exitModalState s 0) False
      else s)"

datatype KeyPress = escapeKey | otherKey int

definition keyPressed :: "CallOutBox \<Rightarrow> KeyPress \<Rightarrow> int Point \<Rightarrow> bool \<times> CallOutBox" where
  "keyPressed s key mouseXYRelative =
     (if key = escapeKey then (True, inputAttemptWhenModal s mouseXYRelative)
      else (False, s))"

text \<open>
  The constructor. \<open>c\<close> is the bounds of the content component, \<open>parent\<close> the local bounds
  of the parent component when there is one, and \<open>userArea\<close> the usable area of the display
  that contains the centre of the target (asked of the host when there is no parent).
  The members without an initialiser start empty.
\<close>

definition CallOutBox_init :: "int Rectangle \<Rightarrow> CallOutBox" where
  "CallOutBox_init c =
     \<lparr>borderSpace = 20, arrowSize = 16, content = c, outline = [],
      targetPoint = Point 0 0, availableArea = Rectangle 0 0 0 0,
      targetArea = Rectangle 0 0 0 0, background = Image_null,
      bounds = Rectangle 0 0 0 0, visible = False, currentlyModal = False,
      modalReturnValue = None, postedCommands = [], repaintPending = False\<rparr>"

definition CallOutBox_new ::
  "int Rectangle \<Rightarrow> int Rectangle \<Rightarrow> int Rectangle option \<Rightarrow> int Rectangle \<Rightarrow> CallOutBox" where
  "CallOutBox_new c area parent userArea =
     (case parent of
        Some parentLocalBounds \<Rightarrow>
          setVisible (updatePosition (CallOutBox_init c) area parentLocalBounds) True
      | None \<Rightarrow> updatePosition (CallOutBox_init c) area userArea)"

text \<open>
  \<^verbatim>\<open>launchAsynchronously\<close> builds the box inside a \<^verbatim>\<open>CallOutBoxCallback\<close>, shows it and enters
  the modal state. A null content component is the contract violation of the assertion:
  there is no box then.
\<close>

definition launchAsynchronously ::
  "int Rectangle option \<Rightarrow> int Rectangle \<Rightarrow> int Rectangle option \<Rightarrow> int Rectangle
   \<Rightarrow> CallOutBox option" where
  "launchAsynchronously contentComponent area parent userArea =
     (case contentComponent of
        None \<Rightarrow> None
      | Some c \<Rightarrow> Some (enterModalState (setVisible (CallOutBox_new c area parent userArea) True)))"

text \<open>The calls a box can receive after its construction, and a run of them.\<close>

datatype Call =
    SetArrowSize real
  | Paint "Path \<Rightarrow> Image \<Rightarrow> Image"
  | Resized
  | Moved
  | ChildBoundsChanged
  | InputAttemptWhenModal "int Point"
  | HandleCommandMessage int
  | KeyPressed KeyPress "int Point"
  | UpdatePosition "int Rectangle" "int Rectangle"
  | RefreshPath

fun perform :: "CallOutBox \<Rightarrow> Call \<Rightarrow> CallOutBox" where
  "perform s (SetArrowSize newSize) = setArrowSize s newSize"
| "perform s (Paint draw) = paint draw s"
| "perform s Resized = resized s"
| "perform s Moved = moved s"
| "perform s ChildBoundsChanged = childBoundsChanged s"
| "perform s (InputAttemptWhenModal m) = inputAttemptWhenModal s m"
| "perform s (HandleCommandMessage commandId) = handleCommandMessage s commandId"
| "perform s (KeyPressed key m) = snd (keyPressed s key m)"
| "perform s (UpdatePosition a b) = updatePosition s a b"
| "perform s RefreshPath = refreshPath s"

section \<open>Auxiliary facts\<close>

lemma upt_four: "[0, 1, 2, 3] = [0..<4]"
  by (simp add: upt_rec)



lemma int32_in_range: "- 2147483648 \<le> n \<Longrightarrow> n \<le> 2147483647 \<Longrightarrow> int32 n = n"
  by (simp add: int32_def)

lemma int32_add_int32: "int32 (a + int32 b) = int32 (a + b)"
proof -
  have "(a + ((b + 2147483648) mod 4294967296 - 2147483648) + 2147483648) mod 4294967296
      = (a + (b + 2147483648) mod 4294967296) mod 4294967296"
    by simp
  also have "\<dots> = (a + (b + 2147483648)) mod 4294967296"
    by (rule mod_add_right_eq)
  finally show ?thesis by (simp add: int32_def add.assoc)
qed

subsection \<open>The loop of the solver\<close>

text \<open>
  After the first \<open>m\<close> turns of the loop, started from any running minimum, either no edge
  scored below the start and nothing has changed, or the loop holds the first edge of lowest
  score; the size of \<^verbatim>\<open>newBounds\<close> never changes.
\<close>

lemma edgeStep_fold:
  "\<exists>n tp nb. foldl (edgeStep s ta aa) (n0, tp0, nb0) [0..<m] = (n, tp, nb)
     \<and> getWidth nb = getWidth nb0 \<and> getHeight nb = getHeight nb0
     \<and> ((\<forall>i<m. \<not> edgeScore s ta aa i < n0) \<and> n = n0 \<and> tp = tp0 \<and> nb = nb0
        \<or> (\<exists>k<m. edgeScore s ta aa k < n0
              \<and> (\<forall>j<k. edgeScore s ta aa k < edgeScore s ta aa j)
              \<and> (\<forall>j<m. edgeScore s ta aa k \<le> edgeScore s ta aa j)
              \<and> n = edgeScore s ta aa k \<and> tp = targets ta ! k
              \<and> nb = setPosition nb0 (point_x (edgePosition s ta aa k))
                                      (point_y (edgePosition s ta aa k))))"
proof (induction m)
  case 0
  show ?case by simp
next
  case (Suc m)
  then obtain n tp nb where run: "foldl (edgeStep s ta aa) (n0, tp0, nb0) [0..<m] = (n, tp, nb)"
    and size: "getWidth nb = getWidth nb0" "getHeight nb = getHeight nb0"
    and sel: "(\<forall>i<m. \<not> edgeScore s ta aa i < n0) \<and> n = n0 \<and> tp = tp0 \<and> nb = nb0
        \<or> (\<exists>k<m. edgeScore s ta aa k < n0
              \<and> (\<forall>j<k. edgeScore s ta aa k < edgeScore s ta aa j)
              \<and> (\<forall>j<m. edgeScore s ta aa k \<le> edgeScore s ta aa j)
              \<and> n = edgeScore s ta aa k \<and> tp = targets ta ! k
              \<and> nb = setPosition nb0 (point_x (edgePosition s ta aa k))
                                      (point_y (edgePosition s ta aa k)))"
    by blast
  have step: "foldl (edgeStep s ta aa) (n0, tp0, nb0) [0..<Suc m] = edgeStep s ta aa (n, tp, nb) m"
    using run by simp
  show ?case
  proof (cases "edgeScore s ta aa m < n")
    case False
    then have same: "edgeStep s ta aa (n, tp, nb) m = (n, tp, nb)"
      by (simp add: edgeStep_def)
    from sel show ?thesis
    proof
      assume a: "(\<forall>i<m. \<not> edgeScore s ta aa i < n0) \<and> n = n0 \<and> tp = tp0 \<and> nb = nb0"
      then have "\<forall>i<Suc m. \<not> edgeScore s ta aa i < n0"
        using False by (auto simp: less_Suc_eq)
      with a step same show ?thesis by simp
    next
      assume "\<exists>k<m. edgeScore s ta aa k < n0
              \<and> (\<forall>j<k. edgeScore s ta aa k < edgeScore s ta aa j)
              \<and> (\<forall>j<m. edgeScore s ta aa k \<le> edgeScore s ta aa j)
              \<and> n = edgeScore s ta aa k \<and> tp = targets ta ! k
              \<and> nb = setPosition nb0 (point_x (edgePosition s ta aa k))
                                      (point_y (edgePosition s ta aa k))"
      then obtain k where k: "k < m" "edgeScore s ta aa k < n0"
          "\<forall>j<k. edgeScore s ta aa k < edgeScore s ta aa j"
          "\<forall>j<m. edgeScore s ta aa k \<le> edgeScore s ta aa j"
          "n = edgeScore s ta aa k" "tp = targets ta ! k"
          "nb = setPosition nb0 (point_x (edgePosition s ta aa k)) (point_y (edgePosition s ta aa k))"
        by blast
      have "\<forall>j<Suc m. edgeScore s ta aa k \<le> edgeScore s ta aa j"
        using k(4,5) False by (auto simp: less_Suc_eq)
      with k step same size show ?thesis
        by (intro exI[of _ n] exI[of _ tp] exI[of _ nb]) (auto intro!: exI[of _ k])
    qed
  next
    case True
    then have new: "edgeStep s ta aa (n, tp, nb) m
        = (edgeScore s ta aa m, targets ta ! m,
           setPosition nb (point_x (edgePosition s ta aa m)) (point_y (edgePosition s ta aa m)))"
      by (simp add: edgeStep_def)
    have pos: "setPosition nb (point_x (edgePosition s ta aa m)) (point_y (edgePosition s ta aa m))
        = setPosition nb0 (point_x (edgePosition s ta aa m)) (point_y (edgePosition s ta aa m))"
      using size by (simp add: setPosition_def)
    have below: "edgeScore s ta aa m < n0" and first: "\<forall>j<m. edgeScore s ta aa m < edgeScore s ta aa j"
      using sel True by (auto simp: not_less)
    have "\<forall>j<Suc m. edgeScore s ta aa m \<le> edgeScore s ta aa j"
      using first by (auto simp: less_Suc_eq intro: less_imp_le)
    with below first step new pos show ?thesis
      by (auto simp: setPosition_def intro!: exI[of _ m])
  qed
qed


lemma placement_size:
  "getWidth (snd (snd (placement s ta aa))) = getWidth (newBoundsInit s)"
  "getHeight (snd (snd (placement s ta aa))) = getHeight (newBoundsInit s)"
  using edgeStep_fold [of s ta aa 1000000000 "targetPoint s" "newBoundsInit s" 4]
  unfolding placement_def upt_four by auto

lemma updatePosition_fields:
  "bounds (updatePosition s ta aa)
     = Rectangle (getX (snd (snd (placement s ta aa)))) (getY (snd (snd (placement s ta aa))))
                 (jmax 0 (getWidth (snd (snd (placement s ta aa)))))
                 (jmax 0 (getHeight (snd (snd (placement s ta aa)))))"
  "targetPoint (updatePosition s ta aa) = fst (snd (placement s ta aa))"
  "targetArea (updatePosition s ta aa) = ta"
  "availableArea (updatePosition s ta aa) = aa"
  "borderSpace (updatePosition s ta aa) = borderSpace s"
  "arrowSize (updatePosition s ta aa) = arrowSize s"
  "content (updatePosition s ta aa) = content s"
  by (simp_all add: updatePosition_def setBounds_def split: prod.splits)

subsection \<open>The scenario of the spec\<close>

text \<open>
  Target area (100, 100, 50, 20), available area (0, 0, 800, 600), content of size
  (200, 100), border space 20 and arrow size 16: every local of the solver, evaluated.
\<close>

lemma scenario_hw:
  assumes "borderSpace s = 20" and "arrowSize s = 16"
    and "getWidth (content s) = 200" and "getHeight (content s) = 100"
  shows "hw s = 120" and "hh s = 70"
  using assms by (simp_all add: hw_def hh_def newBoundsInit_def int32_def int_div_def)

lemma scenario_targets:
  "targets (Rectangle 100 100 50 20) = [Point 125 120, Point 150 110, Point 100 110, Point 125 100]"
  by (simp add: targets_def getCentreX_def getCentreY_def getBottom_def getRight_def int_div_def)

lemma scenario_lines:
  assumes "borderSpace s = 20" and "arrowSize s = 16"
    and "getWidth (content s) = 200" and "getHeight (content s) = 100"
  shows "probeLines s (Rectangle 100 100 50 20)
           = [Line (Point 65 186) (Point 185 186), Line (Point 266 100) (Point 266 120),
              Line (Point (- 16) 100) (Point (- 16) 120), Line (Point 65 34) (Point 185 34)]"
  using assms
  by (simp add: probeLines_def scenario_hw [OF assms] lines_def scenario_targets translated_def)

lemma scenario_area:
  assumes "borderSpace s = 20" and "arrowSize s = 16"
    and "getWidth (content s) = 200" and "getHeight (content s) = 100"
  shows "centrePointArea s (Rectangle 0 0 800 600) = Rectangle 120 70 560 460"
  by (simp add: centrePointArea_def scenario_hw [OF assms] reduced_def expanded_def toFloat_def
      jmax_def)

lemma scenario_targetCentre: "targetCentre (Rectangle 100 100 50 20) = Point 125 110"
  by (simp add: targetCentre_def getCentre_def getCentreX_def getCentreY_def point_toFloat_def
      int_div_def)

lemma scenario_centres:
  assumes "borderSpace s = 20" and "arrowSize s = 16"
    and "getWidth (content s) = 200" and "getHeight (content s) = 100"
  shows "edgeCentre s (Rectangle 100 100 50 20) (Rectangle 0 0 800 600) 0 = Point 125 186"
    and "edgeCentre s (Rectangle 100 100 50 20) (Rectangle 0 0 800 600) (Suc 0) = Point 266 110"
    and "edgeCentre s (Rectangle 100 100 50 20) (Rectangle 0 0 800 600) 2 = Point 120 110"
    and "edgeCentre s (Rectangle 100 100 50 20) (Rectangle 0 0 800 600) 3 = Point 125 70"
  by (simp_all add: edgeCentre_def scenario_lines [OF assms] scenario_area [OF assms]
      scenario_targetCentre getConstrainedPoint_def jlimit_def findNearestPointTo_def Let_def)

lemma scenario_scores:
  assumes "borderSpace s = 20" and "arrowSize s = 16"
    and "getWidth (content s) = 200" and "getHeight (content s) = 100"
  shows "edgeScore s (Rectangle 100 100 50 20) (Rectangle 0 0 800 600) 0 = 66"
    and "edgeScore s (Rectangle 100 100 50 20) (Rectangle 0 0 800 600) (Suc 0) = 116"
    and "edgeScore s (Rectangle 100 100 50 20) (Rectangle 0 0 800 600) 2 = 1020"
    and "edgeScore s (Rectangle 100 100 50 20) (Rectangle 0 0 800 600) 3 = 1030"
  by (simp_all add: edgeScore_def scenario_centres [OF assms] scenario_lines [OF assms]
      scenario_area [OF assms] scenario_targets getDistanceFrom_def contains_def)

lemma scenario_position:
  assumes "borderSpace s = 20" and "arrowSize s = 16"
    and "getWidth (content s) = 200" and "getHeight (content s) = 100"
  shows "edgePosition s (Rectangle 100 100 50 20) (Rectangle 0 0 800 600) 0 = Point 5 116"
  by (simp add: edgePosition_def scenario_centres [OF assms] scenario_hw [OF assms]
      float_to_int_def)

lemma scenario_placement:
  assumes "borderSpace s = 20" and "arrowSize s = 16"
    and "getWidth (content s) = 200" and "getHeight (content s) = 100"
  shows "placement s (Rectangle 100 100 50 20) (Rectangle 0 0 800 600) = (66, Point 125 120, Rectangle 5 116 240 140)"
  using assms
  by (simp add: placement_def edgeStep_def scenario_scores [OF assms] scenario_position [OF assms]
      scenario_targets setPosition_def newBoundsInit_def int32_def)

lemma init_fields:
  "borderSpace (CallOutBox_init c) = 20" "arrowSize (CallOutBox_init c) = 16"
  "content (CallOutBox_init c) = c" "targetPoint (CallOutBox_init c) = Point 0 0"
  by (simp_all add: CallOutBox_init_def)

subsection \<open>The edge kept by the loop\<close>



subsection \<open>A tie between the bottom and the top edge\<close>

text \<open>
  The same box and available area with the target area (100, 290, 50, 20), which has room
  below and above: the bottom and the top edge both score 66.
\<close>

lemma tie_targets:
  "targets (Rectangle 100 290 50 20) = [Point 125 310, Point 150 300, Point 100 300, Point 125 290]"
  by (simp add: targets_def getCentreX_def getCentreY_def getBottom_def getRight_def int_div_def)

lemma tie_lines:
  assumes "borderSpace s = 20" and "arrowSize s = 16"
    and "getWidth (content s) = 200" and "getHeight (content s) = 100"
  shows "probeLines s (Rectangle 100 290 50 20)
           = [Line (Point 65 376) (Point 185 376), Line (Point 266 290) (Point 266 310),
              Line (Point (- 16) 290) (Point (- 16) 310), Line (Point 65 224) (Point 185 224)]"
  using assms
  by (simp add: probeLines_def scenario_hw [OF assms] lines_def tie_targets translated_def)

lemma tie_targetCentre: "targetCentre (Rectangle 100 290 50 20) = Point 125 300"
  by (simp add: targetCentre_def getCentre_def getCentreX_def getCentreY_def point_toFloat_def
      int_div_def)

lemma tie_centres:
  assumes "borderSpace s = 20" and "arrowSize s = 16"
    and "getWidth (content s) = 200" and "getHeight (content s) = 100"
  shows "edgeCentre s (Rectangle 100 290 50 20) (Rectangle 0 0 800 600) 0 = Point 125 376"
    and "edgeCentre s (Rectangle 100 290 50 20) (Rectangle 0 0 800 600) (Suc 0) = Point 266 300"
    and "edgeCentre s (Rectangle 100 290 50 20) (Rectangle 0 0 800 600) 2 = Point 120 300"
    and "edgeCentre s (Rectangle 100 290 50 20) (Rectangle 0 0 800 600) 3 = Point 125 224"
  by (simp_all add: edgeCentre_def tie_lines [OF assms] scenario_area [OF assms]
      tie_targetCentre getConstrainedPoint_def jlimit_def findNearestPointTo_def Let_def)


lemma tie_position:
  assumes "borderSpace s = 20" and "arrowSize s = 16"
    and "getWidth (content s) = 200" and "getHeight (content s) = 100"
  shows "edgePosition s (Rectangle 100 290 50 20) (Rectangle 0 0 800 600) 0 = Point 5 306"
  by (simp add: edgePosition_def tie_centres [OF assms] scenario_hw [OF assms]
      float_to_int_def)

subsection \<open>A target far outside the available area\<close>







subsection \<open>The outline, the arrow size and the calls\<close>

lemma jmax_max: "jmax a b = max a b"
  by (auto simp: jmax_def max_def)

lemma refreshPath_eq:
  "refreshPath s
     = s\<lparr>repaintPending := True, background := Image_null,
          outline := [Bubble (expanded (toFloat (content s)) (9 / 2) (9 / 2))
                             (toFloat (getLocalBounds s))
                             (point_sub (targetPoint s) (point_toFloat (getPosition (bounds s))))
                             9 (arrowSize s * (7 / 10))]\<rparr>"
  by (simp add: refreshPath_def repaint_def addBubble_def getLocalBounds_def Let_def)

lemma refreshPath_fields:
  "borderSpace (refreshPath s) = borderSpace s" "arrowSize (refreshPath s) = arrowSize s"
  "content (refreshPath s) = content s" "targetPoint (refreshPath s) = targetPoint s"
  "availableArea (refreshPath s) = availableArea s" "targetArea (refreshPath s) = targetArea s"
  "bounds (refreshPath s) = bounds s" "visible (refreshPath s) = visible s"
  "currentlyModal (refreshPath s) = currentlyModal s"
  "modalReturnValue (refreshPath s) = modalReturnValue s"
  "postedCommands (refreshPath s) = postedCommands s"
  by (simp_all add: refreshPath_eq)

lemma setArrowSize_fields:
  "borderSpace (setArrowSize s newSize) = jmax 20 (float_to_int newSize)"
  "arrowSize (setArrowSize s newSize) = newSize"
  by (simp_all add: setArrowSize_def Let_def refreshPath_fields)

lemma inputAttempt_fields:
  "borderSpace (inputAttemptWhenModal s m) = borderSpace s"
  "arrowSize (inputAttemptWhenModal s m) = arrowSize s"
  by (simp_all add: inputAttemptWhenModal_def Let_def postCommandMessage_def setVisible_def
      exitModalState_def)

lemma perform_keeps_invariant:
  assumes "borderSpace s = jmax 20 (float_to_int (arrowSize s))"
  shows "borderSpace (perform s call) = jmax 20 (float_to_int (arrowSize (perform s call)))"
proof (cases call)
  case (SetArrowSize newSize)
  then show ?thesis by (simp add: setArrowSize_fields)
next
  case (Paint draw)
  with assms show ?thesis by (simp add: paint_def)
next
  case Resized
  with assms show ?thesis by (simp add: resized_def refreshPath_fields)
next
  case Moved
  with assms show ?thesis by (simp add: moved_def refreshPath_fields)
next
  case ChildBoundsChanged
  with assms show ?thesis by (simp add: childBoundsChanged_def updatePosition_fields)
next
  case (InputAttemptWhenModal m)
  with assms show ?thesis by (simp add: inputAttempt_fields)
next
  case (HandleCommandMessage commandId)
  with assms show ?thesis
    by (simp add: handleCommandMessage_def setVisible_def exitModalState_def)
next
  case (KeyPressed key m)
  with assms show ?thesis by (simp add: keyPressed_def inputAttempt_fields)
next
  case (UpdatePosition a b)
  with assms show ?thesis by (simp add: updatePosition_fields)
next
  case RefreshPath
  with assms show ?thesis by (simp add: refreshPath_fields)
qed

lemma run_keeps_invariant:
  "borderSpace s = jmax 20 (float_to_int (arrowSize s)) \<Longrightarrow>
   borderSpace (foldl perform s calls) = jmax 20 (float_to_int (arrowSize (foldl perform s calls)))"
proof (induction calls arbitrary: s)
  case Nil
  then show ?case by simp
next
  case (Cons call calls)
  from Cons.prems have "borderSpace (perform s call)
      = jmax 20 (float_to_int (arrowSize (perform s call)))"
    by (rule perform_keeps_invariant)
  then show ?case using Cons.IH by simp
qed

lemma new_invariant:
  "borderSpace (CallOutBox_new c area parent userArea)
     = jmax 20 (float_to_int (arrowSize (CallOutBox_new c area parent userArea)))"
  by (cases parent)
     (simp_all add: CallOutBox_new_def setVisible_def updatePosition_fields init_fields
        jmax_def float_to_int_def)

lemma float_to_int_above: "f - 1 < real_of_int (float_to_int f)"
  by (simp add: float_to_int_def) linarith

lemma new_scenario:
  "bounds (CallOutBox_new (Rectangle 0 0 200 100) (Rectangle 100 100 50 20) (Some (Rectangle 0 0 800 600)) (Rectangle 0 0 800 600)) = Rectangle 5 116 240 140"
  "targetPoint (CallOutBox_new (Rectangle 0 0 200 100) (Rectangle 100 100 50 20) (Some (Rectangle 0 0 800 600)) (Rectangle 0 0 800 600)) = Point 125 120"
  "targetArea (CallOutBox_new (Rectangle 0 0 200 100) (Rectangle 100 100 50 20) (Some (Rectangle 0 0 800 600)) (Rectangle 0 0 800 600)) = (Rectangle 100 100 50 20)"
  "arrowSize (CallOutBox_new (Rectangle 0 0 200 100) (Rectangle 100 100 50 20) (Some (Rectangle 0 0 800 600)) (Rectangle 0 0 800 600)) = 16"
  "borderSpace (CallOutBox_new (Rectangle 0 0 200 100) (Rectangle 100 100 50 20) (Some (Rectangle 0 0 800 600)) (Rectangle 0 0 800 600)) = 20"
  "content (CallOutBox_new (Rectangle 0 0 200 100) (Rectangle 100 100 50 20) (Some (Rectangle 0 0 800 600)) (Rectangle 0 0 800 600)) = Rectangle 0 0 200 100"
  by (simp_all add: CallOutBox_new_def setVisible_def updatePosition_fields init_fields
      scenario_placement jmax_def)

subsection \<open>The outline of the scenario\<close>

text \<open>
  The box of the scenario as built by the constructor and laid out by \<^verbatim>\<open>resized\<close>: the
  content at (20, 20), the body of the bubble the content grown by 4.5 on each side, and the
  arrow tip at (120, 4) in the coordinates of the box.
\<close>

lemma shown_outline:
  "outline (resized (CallOutBox_new (Rectangle 0 0 200 100) (Rectangle 100 100 50 20) (Some (Rectangle 0 0 800 600)) (Rectangle 0 0 800 600)))
     = [Bubble (Rectangle (31 / 2) (31 / 2) 209 109) (Rectangle 0 0 240 140) (Point 120 4) 9 (56 / 5)]"
  by (simp add: resized_def refreshPath_eq new_scenario setPosition_def toFloat_def expanded_def
      jmax_def getLocalBounds_def point_sub_def point_toFloat_def getPosition_def)

lemma shown_bounds: "getLocalBounds (resized (CallOutBox_new (Rectangle 0 0 200 100) (Rectangle 100 100 50 20) (Some (Rectangle 0 0 800 600)) (Rectangle 0 0 800 600))) = Rectangle 0 0 240 140"
  by (simp add: resized_def getLocalBounds_def refreshPath_fields new_scenario)

lemma shown_side: "nearestSide (Rectangle (31 / 2) (31 / 2) 209 109) (Point 120 4) = TopSide"
  by (simp add: nearestSide_def getBottom_def getRight_def)

lemma shown_hitTest:
  "hitTest (resized (CallOutBox_new (Rectangle 0 0 200 100) (Rectangle 100 100 50 20) (Some (Rectangle 0 0 800 600)) (Rectangle 0 0 800 600))) x y
     \<longleftrightarrow> roundedRectangle_contains (Rectangle (31 / 2) (31 / 2) 209 109) 9
            (Point (real_of_int x) (real_of_int y))
         \<or> triangle_contains 120 4 (31 / 2) (56 / 5) (real_of_int x) (real_of_int y)"
  by (simp add: hitTest_def path_contains_def shown_outline bubble_contains_def notch_contains_def
      shown_side)

section \<open>The claims\<close>

text \<open>
  C1. In the scenario of the spec (target area (100, 100, 50, 20), available area
  (0, 0, 800, 600), content size (200, 100), border space 20, arrow size 16) the bottom edge
  (index 0) has the score 66, strictly below the scores 116, 1020 and 1030 of the right, left
  and top edges, so the loop keeps the bottom edge: the bounds get the size (240, 140), at
  position (5, 116), and the arrow tip is the bottom centre (125, 120) of the target.
\<close>

theorem C1_scenario_bottom_edge:
  assumes "borderSpace s = 20" and "arrowSize s = 16"
    and "getWidth (content s) = 200" and "getHeight (content s) = 100"
  shows "edgeScore s (Rectangle 100 100 50 20) (Rectangle 0 0 800 600) 0 = 66
       \<and> edgeScore s (Rectangle 100 100 50 20) (Rectangle 0 0 800 600) 1 = 116
       \<and> edgeScore s (Rectangle 100 100 50 20) (Rectangle 0 0 800 600) 2 = 1020
       \<and> edgeScore s (Rectangle 100 100 50 20) (Rectangle 0 0 800 600) 3 = 1030
       \<and> placement s (Rectangle 100 100 50 20) (Rectangle 0 0 800 600) = (edgeScore s (Rectangle 100 100 50 20) (Rectangle 0 0 800 600) 0, targets (Rectangle 100 100 50 20) ! 0, Rectangle 5 116 240 140)
       \<and> bounds (updatePosition s (Rectangle 100 100 50 20) (Rectangle 0 0 800 600)) = Rectangle 5 116 240 140
       \<and> getWidth (bounds (updatePosition s (Rectangle 100 100 50 20) (Rectangle 0 0 800 600))) = 240
       \<and> getHeight (bounds (updatePosition s (Rectangle 100 100 50 20) (Rectangle 0 0 800 600))) = 140
       \<and> targetPoint (updatePosition s (Rectangle 100 100 50 20) (Rectangle 0 0 800 600)) = Point 125 120
       \<and> Point 125 120 = Point (real_of_int (getCentreX (Rectangle 100 100 50 20))) (real_of_int (getBottom (Rectangle 100 100 50 20)))"
  by (simp add: scenario_scores [OF assms] scenario_placement [OF assms] scenario_targets
      updatePosition_fields jmax_def getCentreX_def getBottom_def int_div_def)

theorem C1_scenario_witness:
  "borderSpace (CallOutBox_init (Rectangle 20 20 200 100)) = 20
   \<and> arrowSize (CallOutBox_init (Rectangle 20 20 200 100)) = 16
   \<and> getWidth (content (CallOutBox_init (Rectangle 20 20 200 100))) = 200
   \<and> getHeight (content (CallOutBox_init (Rectangle 20 20 200 100))) = 100
   \<and> bounds (updatePosition (CallOutBox_init (Rectangle 20 20 200 100)) (Rectangle 100 100 50 20) (Rectangle 0 0 800 600))
       = Rectangle 5 116 240 140
   \<and> targetPoint (updatePosition (CallOutBox_init (Rectangle 20 20 200 100)) (Rectangle 100 100 50 20) (Rectangle 0 0 800 600))
       = Point 125 120"
  using C1_scenario_bottom_edge [of "CallOutBox_init (Rectangle 20 20 200 100)"]
  by (simp add: init_fields)








text \<open>
  C5 as it is written is for every content size. The size of the new bounds is a sum of
  32-bit \<^verbatim>\<open>int\<close>: with a content 2147483647 wide and the border space 20 the sum wraps to
  a negative width, which the host stores as the width 0. The bounds are then neither as wide
  as the content plus twice the border space nor at least twice the border space wide.
\<close>

theorem C5_overflow_counterexample:
  "getWidth (content (CallOutBox_init (Rectangle 20 20 2147483647 100))) = 2147483647
   \<and> borderSpace (CallOutBox_init (Rectangle 20 20 2147483647 100)) = 20
   \<and> getWidth (newBoundsInit (CallOutBox_init (Rectangle 20 20 2147483647 100))) = - 2147483609
   \<and> getWidth (bounds (updatePosition (CallOutBox_init (Rectangle 20 20 2147483647 100))
                                       (Rectangle 100 100 50 20) (Rectangle 0 0 800 600))) = 0
   \<and> getWidth (bounds (updatePosition (CallOutBox_init (Rectangle 20 20 2147483647 100))
                                       (Rectangle 100 100 50 20) (Rectangle 0 0 800 600)))
       \<noteq> getWidth (content (CallOutBox_init (Rectangle 20 20 2147483647 100)))
          + 2 * borderSpace (CallOutBox_init (Rectangle 20 20 2147483647 100))
   \<and> \<not> 2 * borderSpace (CallOutBox_init (Rectangle 20 20 2147483647 100))
         \<le> getWidth (bounds (updatePosition (CallOutBox_init (Rectangle 20 20 2147483647 100))
                                             (Rectangle 100 100 50 20) (Rectangle 0 0 800 600)))"
  by (simp add: updatePosition_fields placement_size newBoundsInit_def init_fields int32_def
      jmax_def)

text \<open>
  C5, as the code has it. Whenever the content width plus twice the border space and the
  content height plus twice the border space are non-negative and at most 2147483647, the
  largest \<^verbatim>\<open>int\<close>, the bounds that \<^verbatim>\<open>updatePosition\<close> sets are as wide as the content plus
  twice the border space and as high as the content plus twice the border space; with a
  content of non-negative size they are at least twice the border space wide and high. The
  function is total: it sets a rectangle on every input.
\<close>

theorem C5_bounds_size:
  assumes "0 \<le> getWidth (content s) + 2 * borderSpace s"
    and "getWidth (content s) + 2 * borderSpace s \<le> 2147483647"
    and "0 \<le> getHeight (content s) + 2 * borderSpace s"
    and "getHeight (content s) + 2 * borderSpace s \<le> 2147483647"
  shows "getWidth (bounds (updatePosition s ta aa)) = getWidth (content s) + 2 * borderSpace s
   \<and> getHeight (bounds (updatePosition s ta aa)) = getHeight (content s) + 2 * borderSpace s
   \<and> (0 \<le> getWidth (content s) \<longrightarrow> 2 * borderSpace s \<le> getWidth (bounds (updatePosition s ta aa)))
   \<and> (0 \<le> getHeight (content s)
        \<longrightarrow> 2 * borderSpace s \<le> getHeight (bounds (updatePosition s ta aa)))"
proof -
  have w: "getWidth (newBoundsInit s) = getWidth (content s) + 2 * borderSpace s"
    using assms(1,2)
    by (simp add: newBoundsInit_def int32_add_int32 int32_in_range mult.commute)
  have h: "getHeight (newBoundsInit s) = getHeight (content s) + 2 * borderSpace s"
    using assms(3,4)
    by (simp add: newBoundsInit_def int32_add_int32 int32_in_range mult.commute)
  show ?thesis
    using assms(1,3) by (simp add: updatePosition_fields placement_size w h jmax_def)
qed

theorem C5_bounds_size_witness:
  "0 \<le> getWidth (content (CallOutBox_init (Rectangle 20 20 200 100))) + 2 * borderSpace (CallOutBox_init (Rectangle 20 20 200 100))
   \<and> getWidth (content (CallOutBox_init (Rectangle 20 20 200 100))) + 2 * borderSpace (CallOutBox_init (Rectangle 20 20 200 100)) \<le> 2147483647
   \<and> 0 \<le> getHeight (content (CallOutBox_init (Rectangle 20 20 200 100))) + 2 * borderSpace (CallOutBox_init (Rectangle 20 20 200 100))
   \<and> getHeight (content (CallOutBox_init (Rectangle 20 20 200 100))) + 2 * borderSpace (CallOutBox_init (Rectangle 20 20 200 100)) \<le> 2147483647
   \<and> 0 \<le> getWidth (content (CallOutBox_init (Rectangle 20 20 200 100))) \<and> 0 \<le> getHeight (content (CallOutBox_init (Rectangle 20 20 200 100)))
   \<and> getWidth (bounds (updatePosition (CallOutBox_init (Rectangle 20 20 200 100)) (Rectangle 100 100 50 20) (Rectangle 0 0 800 600))) = 240
   \<and> getHeight (bounds (updatePosition (CallOutBox_init (Rectangle 20 20 200 100)) (Rectangle 100 100 50 20) (Rectangle 0 0 800 600))) = 140
   \<and> 2 * borderSpace (CallOutBox_init (Rectangle 20 20 200 100)) \<le> getWidth (bounds (updatePosition (CallOutBox_init (Rectangle 20 20 200 100)) (Rectangle 100 100 50 20) (Rectangle 0 0 800 600)))
   \<and> 2 * borderSpace (CallOutBox_init (Rectangle 20 20 200 100)) \<le> getHeight (bounds (updatePosition (CallOutBox_init (Rectangle 20 20 200 100)) (Rectangle 100 100 50 20) (Rectangle 0 0 800 600)))"
  using C5_bounds_size [of "(CallOutBox_init (Rectangle 20 20 200 100))" "(Rectangle 100 100 50 20)" "(Rectangle 0 0 800 600)"]
  by (simp add: init_fields)

text \<open>
  C6 as it is written says that the border space is at least the arrow size after
  \<^verbatim>\<open>setArrowSize\<close>. The function takes the integer part of the arrow size: after
  \<^verbatim>\<open>setArrowSize (20.5)\<close> the border space is 20, below the arrow size 20.5.
\<close>

theorem C6_setArrowSize_counterexample:
  "borderSpace (setArrowSize (CallOutBox_init (Rectangle 20 20 200 100)) (41 / 2)) = 20
   \<and> arrowSize (setArrowSize (CallOutBox_init (Rectangle 20 20 200 100)) (41 / 2)) = 41 / 2
   \<and> \<not> max 20 (arrowSize (setArrowSize (CallOutBox_init (Rectangle 20 20 200 100)) (41 / 2)))
         \<le> real_of_int (borderSpace (setArrowSize (CallOutBox_init (Rectangle 20 20 200 100)) (41 / 2)))"
  by (simp add: setArrowSize_fields jmax_def float_to_int_def)

text \<open>
  C6, as the code has it. After construction (by the constructor, or by
  \<^verbatim>\<open>launchAsynchronously\<close>) and after every run of calls, the border space is the larger of 20
  and the integer part of the arrow size (the arrow size cut off towards zero). So it is at
  least 20, at least the integer part of the arrow size, and more than the arrow size less
  one; after \<^verbatim>\<open>setArrowSize (newSize)\<close> it is the larger of 20 and the integer part of
  \<open>newSize\<close>.
\<close>

theorem C6_borderSpace_invariant:
  assumes "box = CallOutBox_new c area parent userArea
           \<or> launchAsynchronously (Some c) area parent userArea = Some box"
  shows "borderSpace (foldl perform box calls)
           = max 20 (float_to_int (arrowSize (foldl perform box calls)))
         \<and> 20 \<le> borderSpace (foldl perform box calls)
         \<and> float_to_int (arrowSize (foldl perform box calls)) \<le> borderSpace (foldl perform box calls)
         \<and> arrowSize (foldl perform box calls) - 1 < real_of_int (borderSpace (foldl perform box calls))
         \<and> borderSpace (setArrowSize (foldl perform box calls) newSize)
             = max 20 (float_to_int newSize)"
proof -
  have start: "borderSpace box = jmax 20 (float_to_int (arrowSize box))"
    using assms new_invariant [of c area parent userArea]
    by (auto simp: launchAsynchronously_def enterModalState_def setVisible_def)
  have inv: "borderSpace (foldl perform box calls)
      = max 20 (float_to_int (arrowSize (foldl perform box calls)))"
    using run_keeps_invariant [OF start, of calls] by (simp add: jmax_max)
  have "arrowSize (foldl perform box calls) - 1
      < real_of_int (float_to_int (arrowSize (foldl perform box calls)))"
    by (rule float_to_int_above)
  also have "\<dots> \<le> real_of_int (borderSpace (foldl perform box calls))"
    using inv by simp
  finally have "arrowSize (foldl perform box calls) - 1
      < real_of_int (borderSpace (foldl perform box calls))" .
  with inv show ?thesis by (simp add: setArrowSize_fields jmax_max)
qed

theorem C6_borderSpace_invariant_witness:
  "borderSpace (foldl perform (CallOutBox_new (Rectangle 0 0 200 100) (Rectangle 100 100 50 20) (Some (Rectangle 0 0 800 600)) (Rectangle 0 0 800 600)) [SetArrowSize (41 / 2), Resized]) = 20
   \<and> arrowSize (foldl perform (CallOutBox_new (Rectangle 0 0 200 100) (Rectangle 100 100 50 20) (Some (Rectangle 0 0 800 600)) (Rectangle 0 0 800 600)) [SetArrowSize (41 / 2), Resized]) = 41 / 2
   \<and> float_to_int (arrowSize (foldl perform (CallOutBox_new (Rectangle 0 0 200 100) (Rectangle 100 100 50 20) (Some (Rectangle 0 0 800 600)) (Rectangle 0 0 800 600)) [SetArrowSize (41 / 2), Resized])) = 20
   \<and> borderSpace (foldl perform (CallOutBox_new (Rectangle 0 0 200 100) (Rectangle 100 100 50 20) (Some (Rectangle 0 0 800 600)) (Rectangle 0 0 800 600)) [SetArrowSize (41 / 2), Resized])
       = max 20 (float_to_int (arrowSize (foldl perform (CallOutBox_new (Rectangle 0 0 200 100) (Rectangle 100 100 50 20) (Some (Rectangle 0 0 800 600)) (Rectangle 0 0 800 600)) [SetArrowSize (41 / 2), Resized])))"
proof -
  have "(CallOutBox_new (Rectangle 0 0 200 100) (Rectangle 100 100 50 20) (Some (Rectangle 0 0 800 600)) (Rectangle 0 0 800 600)) = (CallOutBox_new (Rectangle 0 0 200 100) (Rectangle 100 100 50 20) (Some (Rectangle 0 0 800 600)) (Rectangle 0 0 800 600))
        \<or> launchAsynchronously (Some (Rectangle 0 0 200 100)) (Rectangle 100 100 50 20) (Some (Rectangle 0 0 800 600)) (Rectangle 0 0 800 600)
            = Some (CallOutBox_new (Rectangle 0 0 200 100) (Rectangle 100 100 50 20) (Some (Rectangle 0 0 800 600)) (Rectangle 0 0 800 600))"
    by simp
  from C6_borderSpace_invariant [OF this, of "[SetArrowSize (41 / 2), Resized]"]
  show ?thesis
    by (simp add: setArrowSize_fields resized_def refreshPath_fields float_to_int_def)
qed

text \<open>
  C7. On an input attempt while the box is modal, with the pointer (its position relative
  to the box, moved by the position of the box) inside the stored target area, the only
  effect is that the dismiss command is posted: visibility and modal state stay as they
  were. With the pointer anywhere else the box leaves the modal state with return value 0 and
  becomes invisible in the same call, and nothing is posted.
\<close>

theorem C7_inputAttemptWhenModal:
  "(contains (targetArea s) (point_add m (getPosition (bounds s)))
      \<longrightarrow> inputAttemptWhenModal s m
            = s\<lparr>postedCommands := postedCommands s @ [callOutBoxDismissCommandId]\<rparr>
          \<and> visible (inputAttemptWhenModal s m) = visible s
          \<and> currentlyModal (inputAttemptWhenModal s m) = currentlyModal s
          \<and> modalReturnValue (inputAttemptWhenModal s m) = modalReturnValue s)
   \<and> (\<not> contains (targetArea s) (point_add m (getPosition (bounds s)))
      \<longrightarrow> inputAttemptWhenModal s m
            = s\<lparr>currentlyModal := False, modalReturnValue := Some 0, visible := False\<rparr>
          \<and> \<not> visible (inputAttemptWhenModal s m)
          \<and> \<not> currentlyModal (inputAttemptWhenModal s m)
          \<and> modalReturnValue (inputAttemptWhenModal s m) = Some 0
          \<and> postedCommands (inputAttemptWhenModal s m) = postedCommands s)"
  by (simp add: inputAttemptWhenModal_def Let_def postCommandMessage_def setVisible_def
      exitModalState_def)

theorem C7_inputAttemptWhenModal_witness:
  "contains (targetArea (enterModalState (CallOutBox_new (Rectangle 0 0 200 100) (Rectangle 100 100 50 20) (Some (Rectangle 0 0 800 600)) (Rectangle 0 0 800 600))))
            (point_add (Point 100 (- 10)) (getPosition (bounds (enterModalState (CallOutBox_new (Rectangle 0 0 200 100) (Rectangle 100 100 50 20) (Some (Rectangle 0 0 800 600)) (Rectangle 0 0 800 600))))))
   \<and> postedCommands (inputAttemptWhenModal (enterModalState (CallOutBox_new (Rectangle 0 0 200 100) (Rectangle 100 100 50 20) (Some (Rectangle 0 0 800 600)) (Rectangle 0 0 800 600))) (Point 100 (- 10)))
       = [callOutBoxDismissCommandId]
   \<and> visible (inputAttemptWhenModal (enterModalState (CallOutBox_new (Rectangle 0 0 200 100) (Rectangle 100 100 50 20) (Some (Rectangle 0 0 800 600)) (Rectangle 0 0 800 600))) (Point 100 (- 10)))
   \<and> currentlyModal (inputAttemptWhenModal (enterModalState (CallOutBox_new (Rectangle 0 0 200 100) (Rectangle 100 100 50 20) (Some (Rectangle 0 0 800 600)) (Rectangle 0 0 800 600))) (Point 100 (- 10)))
   \<and> \<not> contains (targetArea (enterModalState (CallOutBox_new (Rectangle 0 0 200 100) (Rectangle 100 100 50 20) (Some (Rectangle 0 0 800 600)) (Rectangle 0 0 800 600))))
              (point_add (Point 300 300) (getPosition (bounds (enterModalState (CallOutBox_new (Rectangle 0 0 200 100) (Rectangle 100 100 50 20) (Some (Rectangle 0 0 800 600)) (Rectangle 0 0 800 600))))))
   \<and> \<not> visible (inputAttemptWhenModal (enterModalState (CallOutBox_new (Rectangle 0 0 200 100) (Rectangle 100 100 50 20) (Some (Rectangle 0 0 800 600)) (Rectangle 0 0 800 600))) (Point 300 300))
   \<and> \<not> currentlyModal (inputAttemptWhenModal (enterModalState (CallOutBox_new (Rectangle 0 0 200 100) (Rectangle 100 100 50 20) (Some (Rectangle 0 0 800 600)) (Rectangle 0 0 800 600))) (Point 300 300))
   \<and> modalReturnValue (inputAttemptWhenModal (enterModalState (CallOutBox_new (Rectangle 0 0 200 100) (Rectangle 100 100 50 20) (Some (Rectangle 0 0 800 600)) (Rectangle 0 0 800 600))) (Point 300 300)) = Some 0"
proof -
  have inside: "contains (targetArea (enterModalState (CallOutBox_new (Rectangle 0 0 200 100) (Rectangle 100 100 50 20) (Some (Rectangle 0 0 800 600)) (Rectangle 0 0 800 600))))
      (point_add (Point 100 (- 10)) (getPosition (bounds (enterModalState (CallOutBox_new (Rectangle 0 0 200 100) (Rectangle 100 100 50 20) (Some (Rectangle 0 0 800 600)) (Rectangle 0 0 800 600))))))"
    by (simp add: enterModalState_def new_scenario contains_def point_add_def getPosition_def)
  have outside: "\<not> contains (targetArea (enterModalState (CallOutBox_new (Rectangle 0 0 200 100) (Rectangle 100 100 50 20) (Some (Rectangle 0 0 800 600)) (Rectangle 0 0 800 600))))
      (point_add (Point 300 300) (getPosition (bounds (enterModalState (CallOutBox_new (Rectangle 0 0 200 100) (Rectangle 100 100 50 20) (Some (Rectangle 0 0 800 600)) (Rectangle 0 0 800 600))))))"
    by (simp add: enterModalState_def new_scenario contains_def point_add_def getPosition_def)
  have start: "visible (enterModalState (CallOutBox_new (Rectangle 0 0 200 100) (Rectangle 100 100 50 20) (Some (Rectangle 0 0 800 600)) (Rectangle 0 0 800 600)))" "currentlyModal (enterModalState (CallOutBox_new (Rectangle 0 0 200 100) (Rectangle 100 100 50 20) (Some (Rectangle 0 0 800 600)) (Rectangle 0 0 800 600)))"
      "postedCommands (enterModalState (CallOutBox_new (Rectangle 0 0 200 100) (Rectangle 100 100 50 20) (Some (Rectangle 0 0 800 600)) (Rectangle 0 0 800 600))) = []"
    by (simp_all add: enterModalState_def CallOutBox_new_def setVisible_def updatePosition_def
        setBounds_def CallOutBox_init_def split: prod.splits)
  from C7_inputAttemptWhenModal [of "enterModalState (CallOutBox_new (Rectangle 0 0 200 100) (Rectangle 100 100 50 20) (Some (Rectangle 0 0 800 600)) (Rectangle 0 0 800 600))" "Point 100 (- 10)"]
       C7_inputAttemptWhenModal [of "enterModalState (CallOutBox_new (Rectangle 0 0 200 100) (Rectangle 100 100 50 20) (Some (Rectangle 0 0 800 600)) (Rectangle 0 0 800 600))" "Point 300 300"]
       inside outside start
  show ?thesis by simp
qed

text \<open>
  C8. \<^verbatim>\<open>hitTest\<close> answers with the containment test of the outline path, at the point
  converted to \<^verbatim>\<open>float\<close>. For the box of the scenario, built and laid out: the corner (0, 0)
  of its bounds and the point (16, 16), which lies in the rectangle of the body but beyond
  its rounded corner, test as outside; the centre (120, 70) of the body and the point
  (120, 10) of the arrow test as inside.
\<close>

theorem C8_hitTest_outline:
  "(hitTest s x y \<longleftrightarrow> path_contains (outline s) (real_of_int x) (real_of_int y))
   \<and> contains (getLocalBounds (resized (CallOutBox_new (Rectangle 0 0 200 100) (Rectangle 100 100 50 20) (Some (Rectangle 0 0 800 600)) (Rectangle 0 0 800 600)))) (Point 0 0)
   \<and> \<not> hitTest (resized (CallOutBox_new (Rectangle 0 0 200 100) (Rectangle 100 100 50 20) (Some (Rectangle 0 0 800 600)) (Rectangle 0 0 800 600))) 0 0
   \<and> contains (getLocalBounds (resized (CallOutBox_new (Rectangle 0 0 200 100) (Rectangle 100 100 50 20) (Some (Rectangle 0 0 800 600)) (Rectangle 0 0 800 600)))) (Point 16 16)
   \<and> contains (Rectangle (31 / 2) (31 / 2) 209 109) (Point (16 :: real) 16)
   \<and> \<not> hitTest (resized (CallOutBox_new (Rectangle 0 0 200 100) (Rectangle 100 100 50 20) (Some (Rectangle 0 0 800 600)) (Rectangle 0 0 800 600))) 16 16
   \<and> hitTest (resized (CallOutBox_new (Rectangle 0 0 200 100) (Rectangle 100 100 50 20) (Some (Rectangle 0 0 800 600)) (Rectangle 0 0 800 600))) 120 70
   \<and> hitTest (resized (CallOutBox_new (Rectangle 0 0 200 100) (Rectangle 100 100 50 20) (Some (Rectangle 0 0 800 600)) (Rectangle 0 0 800 600))) 120 10"
  by (simp add: hitTest_def [of s] shown_hitTest shown_bounds contains_def
      roundedRectangle_contains_def triangle_contains_def jlimit_def getRight_def getBottom_def
      power2_eq_square)

text \<open>
  C9. \<^verbatim>\<open>refreshPath\<close> builds the outline from the bounds of the content, the local bounds,
  the arrow tip, the position and the arrow size alone: two states that agree on these get
  the same outline, and the same answer of \<^verbatim>\<open>hitTest\<close> at every point. Calling it a second
  time changes nothing.
\<close>

theorem C9_refreshPath_idempotent:
  "refreshPath (refreshPath s) = refreshPath s
   \<and> outline (refreshPath (refreshPath s)) = outline (refreshPath s)
   \<and> hitTest (refreshPath (refreshPath s)) x y = hitTest (refreshPath s) x y
   \<and> outline (refreshPath s)
       = [Bubble (expanded (toFloat (content s)) (9 / 2) (9 / 2))
                 (toFloat (getLocalBounds s))
                 (point_sub (targetPoint s) (point_toFloat (getPosition (bounds s))))
                 9 (arrowSize s * (7 / 10))]
   \<and> (content s = content s' \<and> getLocalBounds s = getLocalBounds s'
        \<and> targetPoint s = targetPoint s' \<and> getPosition (bounds s) = getPosition (bounds s')
        \<and> arrowSize s = arrowSize s'
      \<longrightarrow> outline (refreshPath s) = outline (refreshPath s')
          \<and> hitTest (refreshPath s) x y = hitTest (refreshPath s') x y)"
  by (simp add: refreshPath_eq hitTest_def getLocalBounds_def)

theorem C9_refreshPath_witness:
  "content (CallOutBox_new (Rectangle 0 0 200 100) (Rectangle 100 100 50 20) (Some (Rectangle 0 0 800 600)) (Rectangle 0 0 800 600)) = content (setVisible (setArrowSize (CallOutBox_new (Rectangle 0 0 200 100) (Rectangle 100 100 50 20) (Some (Rectangle 0 0 800 600)) (Rectangle 0 0 800 600)) 16) False)
   \<and> getLocalBounds (CallOutBox_new (Rectangle 0 0 200 100) (Rectangle 100 100 50 20) (Some (Rectangle 0 0 800 600)) (Rectangle 0 0 800 600)) = getLocalBounds (setVisible (setArrowSize (CallOutBox_new (Rectangle 0 0 200 100) (Rectangle 100 100 50 20) (Some (Rectangle 0 0 800 600)) (Rectangle 0 0 800 600)) 16) False)
   \<and> targetPoint (CallOutBox_new (Rectangle 0 0 200 100) (Rectangle 100 100 50 20) (Some (Rectangle 0 0 800 600)) (Rectangle 0 0 800 600)) = targetPoint (setVisible (setArrowSize (CallOutBox_new (Rectangle 0 0 200 100) (Rectangle 100 100 50 20) (Some (Rectangle 0 0 800 600)) (Rectangle 0 0 800 600)) 16) False)
   \<and> getPosition (bounds (CallOutBox_new (Rectangle 0 0 200 100) (Rectangle 100 100 50 20) (Some (Rectangle 0 0 800 600)) (Rectangle 0 0 800 600))) = getPosition (bounds (setVisible (setArrowSize (CallOutBox_new (Rectangle 0 0 200 100) (Rectangle 100 100 50 20) (Some (Rectangle 0 0 800 600)) (Rectangle 0 0 800 600)) 16) False))
   \<and> arrowSize (CallOutBox_new (Rectangle 0 0 200 100) (Rectangle 100 100 50 20) (Some (Rectangle 0 0 800 600)) (Rectangle 0 0 800 600)) = arrowSize (setVisible (setArrowSize (CallOutBox_new (Rectangle 0 0 200 100) (Rectangle 100 100 50 20) (Some (Rectangle 0 0 800 600)) (Rectangle 0 0 800 600)) 16) False)
   \<and> outline (refreshPath (CallOutBox_new (Rectangle 0 0 200 100) (Rectangle 100 100 50 20) (Some (Rectangle 0 0 800 600)) (Rectangle 0 0 800 600))) = outline (refreshPath (setVisible (setArrowSize (CallOutBox_new (Rectangle 0 0 200 100) (Rectangle 100 100 50 20) (Some (Rectangle 0 0 800 600)) (Rectangle 0 0 800 600)) 16) False))
   \<and> hitTest (refreshPath (CallOutBox_new (Rectangle 0 0 200 100) (Rectangle 100 100 50 20) (Some (Rectangle 0 0 800 600)) (Rectangle 0 0 800 600))) 120 10
       = hitTest (refreshPath (setVisible (setArrowSize (CallOutBox_new (Rectangle 0 0 200 100) (Rectangle 100 100 50 20) (Some (Rectangle 0 0 800 600)) (Rectangle 0 0 800 600)) 16) False)) 120 10
   \<and> outline (refreshPath (refreshPath (CallOutBox_new (Rectangle 0 0 200 100) (Rectangle 100 100 50 20) (Some (Rectangle 0 0 800 600)) (Rectangle 0 0 800 600)))) = outline (refreshPath (CallOutBox_new (Rectangle 0 0 200 100) (Rectangle 100 100 50 20) (Some (Rectangle 0 0 800 600)) (Rectangle 0 0 800 600)))"
proof -
  have same: "content (CallOutBox_new (Rectangle 0 0 200 100) (Rectangle 100 100 50 20) (Some (Rectangle 0 0 800 600)) (Rectangle 0 0 800 600)) = content (setVisible (setArrowSize (CallOutBox_new (Rectangle 0 0 200 100) (Rectangle 100 100 50 20) (Some (Rectangle 0 0 800 600)) (Rectangle 0 0 800 600)) 16) False)"
      "getLocalBounds (CallOutBox_new (Rectangle 0 0 200 100) (Rectangle 100 100 50 20) (Some (Rectangle 0 0 800 600)) (Rectangle 0 0 800 600)) = getLocalBounds (setVisible (setArrowSize (CallOutBox_new (Rectangle 0 0 200 100) (Rectangle 100 100 50 20) (Some (Rectangle 0 0 800 600)) (Rectangle 0 0 800 600)) 16) False)"
      "targetPoint (CallOutBox_new (Rectangle 0 0 200 100) (Rectangle 100 100 50 20) (Some (Rectangle 0 0 800 600)) (Rectangle 0 0 800 600)) = targetPoint (setVisible (setArrowSize (CallOutBox_new (Rectangle 0 0 200 100) (Rectangle 100 100 50 20) (Some (Rectangle 0 0 800 600)) (Rectangle 0 0 800 600)) 16) False)"
      "getPosition (bounds (CallOutBox_new (Rectangle 0 0 200 100) (Rectangle 100 100 50 20) (Some (Rectangle 0 0 800 600)) (Rectangle 0 0 800 600))) = getPosition (bounds (setVisible (setArrowSize (CallOutBox_new (Rectangle 0 0 200 100) (Rectangle 100 100 50 20) (Some (Rectangle 0 0 800 600)) (Rectangle 0 0 800 600)) 16) False))"
      "arrowSize (CallOutBox_new (Rectangle 0 0 200 100) (Rectangle 100 100 50 20) (Some (Rectangle 0 0 800 600)) (Rectangle 0 0 800 600)) = arrowSize (setVisible (setArrowSize (CallOutBox_new (Rectangle 0 0 200 100) (Rectangle 100 100 50 20) (Some (Rectangle 0 0 800 600)) (Rectangle 0 0 800 600)) 16) False)"
    by (simp_all add: setVisible_def setArrowSize_def Let_def refreshPath_fields getLocalBounds_def
        new_scenario)
  from C9_refreshPath_idempotent [of "(CallOutBox_new (Rectangle 0 0 200 100) (Rectangle 100 100 50 20) (Some (Rectangle 0 0 800 600)) (Rectangle 0 0 800 600))" 120 10 "setVisible (setArrowSize (CallOutBox_new (Rectangle 0 0 200 100) (Rectangle 100 100 50 20) (Some (Rectangle 0 0 800 600)) (Rectangle 0 0 800 600)) 16) False"] same
  have "outline (refreshPath (CallOutBox_new (Rectangle 0 0 200 100) (Rectangle 100 100 50 20) (Some (Rectangle 0 0 800 600)) (Rectangle 0 0 800 600))) = outline (refreshPath (setVisible (setArrowSize (CallOutBox_new (Rectangle 0 0 200 100) (Rectangle 100 100 50 20) (Some (Rectangle 0 0 800 600)) (Rectangle 0 0 800 600)) 16) False))
        \<and> hitTest (refreshPath (CallOutBox_new (Rectangle 0 0 200 100) (Rectangle 100 100 50 20) (Some (Rectangle 0 0 800 600)) (Rectangle 0 0 800 600))) 120 10
            = hitTest (refreshPath (setVisible (setArrowSize (CallOutBox_new (Rectangle 0 0 200 100) (Rectangle 100 100 50 20) (Some (Rectangle 0 0 800 600)) (Rectangle 0 0 800 600)) 16) False)) 120 10
        \<and> outline (refreshPath (refreshPath (CallOutBox_new (Rectangle 0 0 200 100) (Rectangle 100 100 50 20) (Some (Rectangle 0 0 800 600)) (Rectangle 0 0 800 600)))) = outline (refreshPath (CallOutBox_new (Rectangle 0 0 200 100) (Rectangle 100 100 50 20) (Some (Rectangle 0 0 800 600)) (Rectangle 0 0 800 600)))"
    by blast
  with same show ?thesis by blast
qed

text \<open>
  C10. \<^verbatim>\<open>setArrowSize\<close> writes the arrow size, the border space, the outline and the cached
  background (reset to the null image), and asks the host for a repaint. It does not run the
  solver: the bounds of the box, the stored target area and available area, the arrow tip
  and the bounds of the content are as before, and so are the visibility, the modal state and
  the posted commands.
\<close>

theorem C10_setArrowSize_frame:
  "setArrowSize s newSize
     = s\<lparr>arrowSize := newSize, borderSpace := jmax 20 (float_to_int newSize),
          repaintPending := True, background := Image_null,
          outline := [Bubble (expanded (toFloat (content s)) (9 / 2) (9 / 2))
                             (toFloat (getLocalBounds s))
                             (point_sub (targetPoint s) (point_toFloat (getPosition (bounds s))))
                             9 (newSize * (7 / 10))]\<rparr>
   \<and> background (setArrowSize s newSize) = Image_null
   \<and> bounds (setArrowSize s newSize) = bounds s
   \<and> targetArea (setArrowSize s newSize) = targetArea s
   \<and> availableArea (setArrowSize s newSize) = availableArea s
   \<and> targetPoint (setArrowSize s newSize) = targetPoint s
   \<and> content (setArrowSize s newSize) = content s
   \<and> visible (setArrowSize s newSize) = visible s
   \<and> currentlyModal (setArrowSize s newSize) = currentlyModal s
   \<and> modalReturnValue (setArrowSize s newSize) = modalReturnValue s
   \<and> postedCommands (setArrowSize s newSize) = postedCommands s"
  by (simp add: setArrowSize_def Let_def refreshPath_eq getLocalBounds_def)

end
